theory Spec2Isabelle
  imports Main "HOL-Library.Word" "HOL-Library.Sublist"
begin

section \<open>The analysis gateway of backend.py\<close>

text \<open>
  The backend is one module, \<^verbatim>\<open>backend.py\<close>: a start-up block that binds the global
  \<^verbatim>\<open>client\<close> (lines 37-47), the gateway \<^verbatim>\<open>analyze_with_gemini\<close> (lines 50-118) and the
  route handler \<^verbatim>\<open>analyze_report\<close> (lines 121-133). The gateway calls three library
  functions whose code is not part of the module: \<^verbatim>\<open>PIL.Image.open\<close>,
  \<^verbatim>\<open>client.generate_content\<close> and \<^verbatim>\<open>json.loads\<close>. They are parameters of the model
  (the record \<open>env\<close>), each returning either the exception it raises or its value.
\<close>

subsection \<open>Python values, exceptions and library objects\<close>

text \<open>
  A Python \<^verbatim>\<open>str\<close> is a list of characters; one list element stands for one code point,
  so \<open>take 500\<close> is the slice \<^verbatim>\<open>[:500]\<close>. A \<^verbatim>\<open>float\<close> literal is kept as the decimal it
  is written as: \<open>PFloat m e\<close> is \<open>m * 10 ^ e\<close>. A dict is an association list in
  insertion order. \<open>PNone\<close> is Python's \<^verbatim>\<open>None\<close>, which is also what a function returns
  when its body ends without reaching a \<^verbatim>\<open>return\<close>.
\<close>

type_synonym bytes = "8 word list"

datatype pyval =
    PNone
  | PBool bool
  | PInt int
  | PFloat int int
  | PStr string
  | PList "pyval list"
  | PDict "(string \<times> pyval) list"

text \<open>
  An exception is a value \<open>e\<close> with \<open>message e\<close> for \<^verbatim>\<open>str(e)\<close>. \<^verbatim>\<open>json.JSONDecodeError\<close> is kept
  apart since line 108 handles it alone. \<open>OtherException\<close> is any other instance of
  \<^verbatim>\<open>Exception\<close> (\<^verbatim>\<open>RecursionError\<close>, \<^verbatim>\<open>ValueError\<close>, werkzeug's \<^verbatim>\<open>RequestEntityTooLarge\<close>, ...).
  \<open>NonException\<close> is a \<^verbatim>\<open>BaseException\<close> outside \<^verbatim>\<open>Exception\<close>: \<^verbatim>\<open>KeyboardInterrupt\<close>,
  \<^verbatim>\<open>SystemExit\<close>, \<^verbatim>\<open>GeneratorExit\<close>. \<open>is_Exception e\<close> is \<^verbatim>\<open>isinstance(e, Exception)\<close>, the test
  that \<^verbatim>\<open>except Exception\<close> makes.
\<close>

datatype py_exception =
    JSONDecodeError (message: string)
  | OtherException (message: string)
  | NonException (message: string)

definition is_Exception :: "py_exception \<Rightarrow> bool" where
  "is_Exception e = (case e of NonException m \<Rightarrow> False | _ \<Rightarrow> True)"

datatype image = ImageFile bytes

datatype client = GenerativeModel string

text \<open>\<^verbatim>\<open>types.Type\<close> and \<^verbatim>\<open>types.Schema\<close>; a field that is not given is the empty list or \<open>None\<close>.\<close>

datatype schema_type =
  TYPE_UNSPECIFIED | STRING | NUMBER | INTEGER | BOOLEAN | ARRAY | OBJECT

datatype schema =
  Schema (stype: schema_type) (properties: "(string \<times> schema) list") (enum: "string list")
    (description: "string option") (required: "string list")

text \<open>
  The arguments of \<^verbatim>\<open>generate_content\<close>: the list \<^verbatim>\<open>contents\<close> and the dict
  \<^verbatim>\<open>generation_config\<close>, whose values may be numbers, strings or a schema (the key
  \<^verbatim>\<open>response_schema\<close> of the library).
\<close>

datatype part = Text string | Picture image

datatype config_value = CfgFloat int int | CfgStr string | CfgSchema schema

record request =
  contents :: "part list"
  generation_config :: "(string \<times> config_value) list"

text \<open>The property \<^verbatim>\<open>response.text\<close> returns a \<^verbatim>\<open>str\<close> or raises.\<close>

record response =
  response_text :: "py_exception + string"

record env =
  image_open :: "bytes \<Rightarrow> py_exception + image"
  generate_content :: "client \<Rightarrow> request \<Rightarrow> py_exception + response"
  json_loads :: "string \<Rightarrow> py_exception + pyval"

subsection \<open>Effects and module state\<close>

text \<open>
  What an invocation does beyond returning: the log records it writes and the library
  calls that read the upload or reach the network, in the order they happen. The module's
  globals that the functions read are the state; every function returns the state it
  leaves.
\<close>

datatype log_level = INFO | WARNING | ERROR

datatype event =
    Log log_level string
  | ImageOpen bytes
  | GenerateContent client request

record module_state =
  GEMINI_API_KEY :: "string option"
  client :: "client option"

record 'a outcome =
  returned :: 'a
  state_after :: module_state
  effects :: "event list"

subsection \<open>Start-up (lines 35-47)\<close>

text \<open>
  \<^verbatim>\<open>genai.configure\<close> followed by \<^verbatim>\<open>genai.GenerativeModel\<close> is the parameter
  \<open>make_client\<close>, given the key and the model name. \<^verbatim>\<open>not GEMINI_API_KEY\<close> holds for
  \<^verbatim>\<open>None\<close> and for the empty string. Line 45 handles instances of \<^verbatim>\<open>Exception\<close>; anything
  else ends the import of the module, and the result is \<open>Inl\<close>.
\<close>

definition startup ::
  "(string \<Rightarrow> string \<Rightarrow> py_exception + client) \<Rightarrow> string option \<Rightarrow>
   py_exception + module_state \<times> event list"
where
  "startup make_client getenv_key =
     (case getenv_key of
        None \<Rightarrow>
          Inr (\<lparr>GEMINI_API_KEY = getenv_key, client = None\<rparr>,
               [Log ERROR ''GEMINI_API_KEY environment variable not set''])
      | Some key \<Rightarrow>
          if key = [] then
            Inr (\<lparr>GEMINI_API_KEY = getenv_key, client = None\<rparr>,
                 [Log ERROR ''GEMINI_API_KEY environment variable not set''])
          else
            (case make_client key ''gemini-2.0-flash-lite'' of
               Inr c \<Rightarrow>
                 Inr (\<lparr>GEMINI_API_KEY = getenv_key, client = Some c\<rparr>,
                      [Log INFO ''Gemini Client Initialized Successfully.''])
             | Inl e \<Rightarrow>
                 if is_Exception e then
                   Inr (\<lparr>GEMINI_API_KEY = getenv_key, client = None\<rparr>,
                        [Log ERROR (''Error initializing Gemini client: '' @ message e)])
                 else Inl e))"

subsection \<open>The gateway (lines 50-118)\<close>

definition system_instruction :: string where
  "system_instruction =
     ''You are an expert, empathetic AI medical report analyzer. '' @
     ''Analyze the uploaded document (X-ray, lab report, or prescription). '' @
     ''Your output must be easy for a layperson to understand. '' @
     ''Critically, your output must strictly adhere to the provided JSON schema. '' @
     ''Do NOT include any text outside of the JSON object.''"

text \<open>
  Lines 69-79. \<^verbatim>\<open>upload_type\<close> is \<^verbatim>\<open>request.form.get('type')\<close>: a \<^verbatim>\<open>str\<close>, or \<^verbatim>\<open>None\<close>
  when the form has no such field; \<^verbatim>\<open>==\<close> against a literal is then false.
\<close>

definition prompt :: "string option \<Rightarrow> string" where
  "prompt upload_type =
     (if upload_type = Some ''medical_image'' then
        ''Analyze this X-ray, CT, or medical image. Identify and describe any significant findings related to bone, tissue, or organs in simple, non-technical language. Provide a brief summary.''
      else if upload_type = Some ''blood_report'' then
        ''Analyze this lab report image. Identify all abnormal or out-of-range parameters. Explain what the deviation from the normal range might suggest in simple, simple terms.''
      else if upload_type = Some ''prescription'' then
        ''Decode this prescription image. List all medications, their dosage, and the precise daily schedule/frequency. '' @
        ''Place the decoded information in the 'details' field.''
      else
        ''Analyze this image and explain the medical content simply.'')"

text \<open>Lines 82-90: the local \<^verbatim>\<open>response_schema\<close>. No later line of the function reads it.\<close>

definition response_schema :: schema where
  "response_schema =
     Schema OBJECT
       [(''summary'',
           Schema STRING [] [] (Some ''A simplified, layman's summary of the findings.'') []),
        (''severity'',
           Schema STRING [] [''Low'', ''Moderate'', ''Severe'', ''Informational'']
             (Some ''Assessment of the finding's urgency or seriousness.'') []),
        (''details'',
           Schema STRING [] []
             (Some ''Detailed findings, e.g., abnormal values, decoded prescription, or specific diagnoses.'') [])]
       [] None [''summary'', ''severity'', ''details'']"

text \<open>Lines 93-102: the arguments given to \<^verbatim>\<open>client.generate_content\<close>.\<close>

definition gemini_call :: "image \<Rightarrow> string option \<Rightarrow> request" where
  "gemini_call img upload_type =
     \<lparr>contents = [Text system_instruction, Picture img, Text (prompt upload_type)],
      generation_config = [(''temperature'', CfgFloat 2 (- 1))]\<rparr>"

text \<open>
  Lines 56-113, the body of the \<^verbatim>\<open>try\<close>: \<open>Inl e\<close> when a statement raises \<open>e\<close>, \<open>Inr v\<close>
  when the body returns \<open>v\<close>. The inner handler (line 108) takes a \<^verbatim>\<open>JSONDecodeError\<close>
  of \<^verbatim>\<open>json.loads\<close> only; whatever else \<^verbatim>\<open>json.loads\<close> raises leaves the body. When
  \<^verbatim>\<open>response.text\<close> is empty the \<^verbatim>\<open>if\<close> of line 105 is skipped and the function ends
  without a \<^verbatim>\<open>return\<close>.
\<close>

definition try_body ::
  "env \<Rightarrow> client \<Rightarrow> bytes \<Rightarrow> string option \<Rightarrow> (py_exception + pyval) \<times> event list"
where
  "try_body ev c file_stream upload_type =
     (case image_open ev file_stream of
        Inl e \<Rightarrow> (Inl e, [ImageOpen file_stream])
      | Inr img \<Rightarrow>
          (let call = gemini_call img upload_type;
               evs = [ImageOpen file_stream, GenerateContent c call]
           in case generate_content ev c call of
                Inl e \<Rightarrow> (Inl e, evs)
              | Inr resp \<Rightarrow>
                  (case response_text resp of
                     Inl e \<Rightarrow> (Inl e, evs)
                   | Inr txt \<Rightarrow>
                       if txt \<noteq> [] then
                         (case json_loads ev txt of
                            Inr v \<Rightarrow> (Inr v, evs)
                          | Inl (JSONDecodeError m) \<Rightarrow>
                              (Inr (PDict [(''summary'', PStr ''Error parsing AI response''),
                                           (''severity'', PStr ''Error''),
                                           (''details'', PStr (take 500 txt))]), evs)
                          | Inl (OtherException m) \<Rightarrow> (Inl (OtherException m), evs)
                          | Inl (NonException m) \<Rightarrow> (Inl (NonException m), evs))
                       else (Inr PNone, evs))))"

text \<open>
  The whole function: the guard of lines 51-53 (\<^verbatim>\<open>not client\<close> holds exactly for
  \<^verbatim>\<open>None\<close>, a model object being truthy), then the \<^verbatim>\<open>try\<close> with the handler of lines
  115-118, which takes the instances of \<^verbatim>\<open>Exception\<close>; any other exception leaves the
  function, and \<open>returned\<close> is \<open>Inl\<close>. The global \<^verbatim>\<open>client\<close> is read and never assigned.
\<close>

definition analyze_with_gemini ::
  "module_state \<Rightarrow> env \<Rightarrow> bytes \<Rightarrow> string option \<Rightarrow> (py_exception + pyval) outcome"
where
  "analyze_with_gemini s ev file_stream upload_type =
     (case client s of
        None \<Rightarrow>
          \<lparr>returned = Inr (PDict [(''summary'', PStr ''AI Service Not Available. Check API key setup.''),
                                  (''severity'', PStr ''Error''),
                                  (''details'', PStr ''N/A'')]),
           state_after = s,
           effects = [Log ERROR ''AI Service Not Available. Check API key setup.'']\<rparr>
      | Some c \<Rightarrow>
          (case try_body ev c file_stream upload_type of
             (Inr v, evs) \<Rightarrow> \<lparr>returned = Inr v, state_after = s, effects = evs\<rparr>
           | (Inl e, evs) \<Rightarrow>
               if is_Exception e then
                 (let error_msg = ''Gemini API or processing failed: '' @ message e
                  in \<lparr>returned = Inr (PDict [(''summary'', PStr error_msg),
                                             (''severity'', PStr ''Error''),
                                             (''details'', PStr ''N/A'')]),
                      state_after = s,
                      effects = evs @ [Log ERROR error_msg]\<rparr>)
               else \<lparr>returned = Inl e, state_after = s, effects = evs\<rparr>))"

subsection \<open>The route handler (lines 121-133)\<close>

text \<open>
  \<^verbatim>\<open>request.files\<close> and \<^verbatim>\<open>request.form\<close> are read from the body of the request when line
  124 first touches them. Reading may raise (werkzeug's \<^verbatim>\<open>RequestEntityTooLarge\<close> for a body
  over its limits); the handler has no \<^verbatim>\<open>try\<close>, so the exception leaves it and the answer
  is the framework's. When reading succeeds both are multi-dicts whose \<^verbatim>\<open>get\<close> returns the
  first value of a key or \<^verbatim>\<open>None\<close>. An uploaded part is a \<^verbatim>\<open>FileStorage\<close>, whose truth value
  is that of its file name (\<^verbatim>\<open>__bool__\<close> returns \<^verbatim>\<open>bool(self.filename)\<close>): a part
  submitted with no file chosen has the empty name and is falsy. So \<^verbatim>\<open>not file\<close> of
  line 127 holds for \<^verbatim>\<open>None\<close> and for a part with the empty name. The handler returns
  the value given to \<^verbatim>\<open>jsonify\<close> and the status, or raises.
\<close>

record file_storage =
  filename :: string
  stream :: bytes

record form_data =
  files :: "(string \<times> file_storage) list"
  form :: "(string \<times> string) list"

record http_request =
  load_form_data :: "py_exception + form_data"

definition analyze_report ::
  "module_state \<Rightarrow> env \<Rightarrow> http_request \<Rightarrow> (py_exception + pyval \<times> nat) outcome"
where
  "analyze_report s ev req =
     (case load_form_data req of
        Inl e \<Rightarrow>
          \<lparr>returned = Inl e, state_after = s, effects = [Log INFO ''Received analysis request'']\<rparr>
      | Inr fd \<Rightarrow>
          (let file = map_of (files fd) ''file'';
               upload_type = map_of (form fd) ''type''
           in case file of
                None \<Rightarrow>
                  \<lparr>returned = Inr (PDict [(''error'', PStr ''No file uploaded'')], 400),
                   state_after = s,
                   effects = [Log INFO ''Received analysis request'', Log WARNING ''No file uploaded'']\<rparr>
              | Some fs \<Rightarrow>
                  if filename fs = [] then
                    \<lparr>returned = Inr (PDict [(''error'', PStr ''No file uploaded'')], 400),
                     state_after = s,
                     effects = [Log INFO ''Received analysis request'', Log WARNING ''No file uploaded'']\<rparr>
                  else
                    (let r = analyze_with_gemini s ev (stream fs) upload_type
                     in case returned r of
                          Inl e \<Rightarrow>
                            \<lparr>returned = Inl e,
                             state_after = state_after r,
                             effects = [Log INFO ''Received analysis request''] @ effects r\<rparr>
                        | Inr result \<Rightarrow>
                            \<lparr>returned = Inr (result, 200),
                             state_after = state_after r,
                             effects = [Log INFO ''Received analysis request''] @ effects r @
                                       [Log INFO ''Analysis completed successfully'']\<rparr>)))"

text \<open>
  The process after start-up: the requests it handles one after the other, each with
  the behaviour of the libraries at that moment, every handler starting in the state
  the one before left.
\<close>

primrec serve ::
  "module_state \<Rightarrow> (env \<times> http_request) list \<Rightarrow>
   (py_exception + pyval \<times> nat) list \<times> module_state"
where
  "serve s [] = ([], s)"
| "serve s (x # xs) =
     (let r = analyze_report s (fst x) (snd x);
          rest = serve (state_after r) xs
      in (returned r # fst rest, snd rest))"

text \<open>Reading a key of a returned dict; \<open>None\<close> when the value is no dict or lacks the key.\<close>

definition field :: "string \<Rightarrow> pyval \<Rightarrow> pyval option" where
  "field k v = (case v of PDict kvs \<Rightarrow> map_of kvs k | _ \<Rightarrow> None)"

subsection \<open>Test doubles and concrete inputs\<close>

text \<open>
  Stand-ins for the libraries at concrete inputs: a decoder and an inference call with a
  fixed answer, and a \<^verbatim>\<open>json.loads\<close> that knows three JSON texts, raises
  \<^verbatim>\<open>RecursionError\<close> on 2000 opening brackets and \<^verbatim>\<open>JSONDecodeError\<close> on every other text.
\<close>

definition loads_stub :: "string \<Rightarrow> py_exception + pyval" where
  "loads_stub t =
     (if t = replicate 2000 CHR ''['' then
        Inl (OtherException ''maximum recursion depth exceeded while decoding a JSON array from a unicode string'')
      else if t = ''[]'' then Inr (PList [])
      else if t = ''null'' then Inr PNone
      else if t = ''{\"severity\": \"unknown\"}'' then Inr (PDict [(''severity'', PStr ''unknown'')])
      else Inl (JSONDecodeError ''Expecting value: line 1 column 1 (char 0)''))"

definition stub_env :: "(py_exception + image) \<Rightarrow> (py_exception + response) \<Rightarrow> env" where
  "stub_env img resp =
     \<lparr>image_open = (\<lambda>b. img), generate_content = (\<lambda>c r. resp), json_loads = loads_stub\<rparr>"

definition answers :: "string \<Rightarrow> env" where
  "answers txt = stub_env (Inr (ImageFile [1, 2, 3])) (Inr \<lparr>response_text = Inr txt\<rparr>)"

definition available :: module_state where
  "available = \<lparr>GEMINI_API_KEY = Some ''key'', client = Some (GenerativeModel ''gemini-2.0-flash-lite'')\<rparr>"

definition unavailable :: module_state where
  "unavailable = \<lparr>GEMINI_API_KEY = None, client = None\<rparr>"

definition upload :: "string \<Rightarrow> string \<Rightarrow> http_request" where
  "upload name ty =
     \<lparr>load_form_data =
        Inr \<lparr>files = [(''file'', \<lparr>filename = name, stream = [1, 2, 3]\<rparr>)], form = [(''type'', ty)]\<rparr>\<rparr>"

section \<open>Shared facts\<close>

lemma analyze_state_after [simp]:
  "state_after (analyze_with_gemini s ev file_stream upload_type) = s"
  by (simp add: analyze_with_gemini_def Let_def split: option.splits prod.splits sum.splits)

text \<open>What the function makes of the way the body of the \<^verbatim>\<open>try\<close> ends.\<close>

lemma try_body_raises:
  "client s = Some c \<Longrightarrow> try_body ev c fs ut = (Inl e, evs) \<Longrightarrow> is_Exception e \<Longrightarrow>
   analyze_with_gemini s ev fs ut =
     \<lparr>returned = Inr (PDict [(''summary'', PStr (''Gemini API or processing failed: '' @ message e)),
                             (''severity'', PStr ''Error''), (''details'', PStr ''N/A'')]),
      state_after = s,
      effects = evs @ [Log ERROR (''Gemini API or processing failed: '' @ message e)]\<rparr>"
  by (simp add: analyze_with_gemini_def Let_def)

lemma try_body_propagates:
  "client s = Some c \<Longrightarrow> try_body ev c fs ut = (Inl e, evs) \<Longrightarrow> \<not> is_Exception e \<Longrightarrow>
   analyze_with_gemini s ev fs ut = \<lparr>returned = Inl e, state_after = s, effects = evs\<rparr>"
  by (simp add: analyze_with_gemini_def Let_def)

lemma try_body_returns:
  "client s = Some c \<Longrightarrow> try_body ev c fs ut = (Inr v, evs) \<Longrightarrow>
   analyze_with_gemini s ev fs ut = \<lparr>returned = Inr v, state_after = s, effects = evs\<rparr>"
  by (simp add: analyze_with_gemini_def Let_def)

lemma raised_is_no_Exception:
  "returned (analyze_with_gemini s ev fs ut) = Inl e \<Longrightarrow> \<not> is_Exception e"
  by (auto simp add: analyze_with_gemini_def Let_def split: option.splits prod.splits sum.splits if_splits)

text \<open>One lemma for each way through the body of the \<^verbatim>\<open>try\<close>.\<close>

lemma try_body_decode_raises:
  "image_open ev fs = Inl e \<Longrightarrow> try_body ev c fs ut = (Inl e, [ImageOpen fs])"
  by (simp add: try_body_def)

lemma try_body_call_raises:
  "image_open ev fs = Inr img \<Longrightarrow> generate_content ev c (gemini_call img ut) = Inl e \<Longrightarrow>
   try_body ev c fs ut = (Inl e, [ImageOpen fs, GenerateContent c (gemini_call img ut)])"
  by (simp add: try_body_def)

lemma try_body_text_raises:
  "image_open ev fs = Inr img \<Longrightarrow> generate_content ev c (gemini_call img ut) = Inr resp \<Longrightarrow>
   response_text resp = Inl e \<Longrightarrow>
   try_body ev c fs ut = (Inl e, [ImageOpen fs, GenerateContent c (gemini_call img ut)])"
  by (simp add: try_body_def)

lemma try_body_empty_text:
  "image_open ev fs = Inr img \<Longrightarrow> generate_content ev c (gemini_call img ut) = Inr resp \<Longrightarrow>
   response_text resp = Inr [] \<Longrightarrow>
   try_body ev c fs ut = (Inr PNone, [ImageOpen fs, GenerateContent c (gemini_call img ut)])"
  by (simp add: try_body_def)

lemma try_body_parsed:
  "image_open ev fs = Inr img \<Longrightarrow> generate_content ev c (gemini_call img ut) = Inr resp \<Longrightarrow>
   response_text resp = Inr txt \<Longrightarrow> txt \<noteq> [] \<Longrightarrow> json_loads ev txt = Inr v \<Longrightarrow>
   try_body ev c fs ut = (Inr v, [ImageOpen fs, GenerateContent c (gemini_call img ut)])"
  by (simp add: try_body_def)

lemma try_body_parse_error:
  "image_open ev fs = Inr img \<Longrightarrow> generate_content ev c (gemini_call img ut) = Inr resp \<Longrightarrow>
   response_text resp = Inr txt \<Longrightarrow> txt \<noteq> [] \<Longrightarrow> json_loads ev txt = Inl (JSONDecodeError m) \<Longrightarrow>
   try_body ev c fs ut =
     (Inr (PDict [(''summary'', PStr ''Error parsing AI response''), (''severity'', PStr ''Error''),
                  (''details'', PStr (take 500 txt))]),
      [ImageOpen fs, GenerateContent c (gemini_call img ut)])"
  by (simp add: try_body_def)

lemma try_body_loads_raises:
  "image_open ev fs = Inr img \<Longrightarrow> generate_content ev c (gemini_call img ut) = Inr resp \<Longrightarrow>
   response_text resp = Inr txt \<Longrightarrow> txt \<noteq> [] \<Longrightarrow> json_loads ev txt = Inl e \<Longrightarrow>
   e = OtherException m \<or> e = NonException m \<Longrightarrow>
   try_body ev c fs ut = (Inl e, [ImageOpen fs, GenerateContent c (gemini_call img ut)])"
  by (auto simp add: try_body_def)

lemma try_body_effects:
  "image_open ev fs = Inr img \<Longrightarrow>
   snd (try_body ev c fs ut) = [ImageOpen fs, GenerateContent c (gemini_call img ut)]"
  by (simp add: try_body_def Let_def split: sum.splits py_exception.splits)


lemma analyze_report_truthy:
  "load_form_data req = Inr fd \<Longrightarrow> map_of (files fd) ''file'' = Some fs \<Longrightarrow> filename fs \<noteq> [] \<Longrightarrow>
   returned (analyze_with_gemini s ev (stream fs) (map_of (form fd) ''type'')) = Inr result \<Longrightarrow>
   analyze_report s ev req =
     \<lparr>returned = Inr (result, 200),
      state_after = s,
      effects = [Log INFO ''Received analysis request''] @
                effects (analyze_with_gemini s ev (stream fs) (map_of (form fd) ''type'')) @
                [Log INFO ''Analysis completed successfully'']\<rparr>"
  by (simp add: analyze_report_def Let_def)

lemma analyze_report_gateway_raises:
  "load_form_data req = Inr fd \<Longrightarrow> map_of (files fd) ''file'' = Some fs \<Longrightarrow> filename fs \<noteq> [] \<Longrightarrow>
   returned (analyze_with_gemini s ev (stream fs) (map_of (form fd) ''type'')) = Inl e \<Longrightarrow>
   analyze_report s ev req =
     \<lparr>returned = Inl e,
      state_after = s,
      effects = [Log INFO ''Received analysis request''] @
                effects (analyze_with_gemini s ev (stream fs) (map_of (form fd) ''type''))\<rparr>"
  by (simp add: analyze_report_def Let_def)


lemma analyze_report_state_after [simp]:
  "state_after (analyze_report s ev req) = s"
  by (simp add: analyze_report_def Let_def split: option.splits sum.splits)

lemma serve_from_one_state:
  "snd (serve s calls) = s \<and>
   fst (serve s calls) = map (\<lambda>x. returned (analyze_report s (fst x) (snd x))) calls"
  by (induction calls) (simp_all add: Let_def)

lemma field_dict [simp]: "field k (PDict kvs) = map_of kvs k"
  by (simp add: field_def)

lemma startup_without_key:
  "startup mk None =
     Inr (\<lparr>GEMINI_API_KEY = None, client = None\<rparr>,
          [Log ERROR ''GEMINI_API_KEY environment variable not set''])"
  "startup mk (Some []) =
     Inr (\<lparr>GEMINI_API_KEY = Some [], client = None\<rparr>,
          [Log ERROR ''GEMINI_API_KEY environment variable not set''])"
  by (simp_all add: startup_def)

lemma startup_with_key:
  "startup (\<lambda>k m. Inr (GenerativeModel m)) (Some ''key'') =
     Inr (available, [Log INFO ''Gemini Client Initialized Successfully.''])"
  by (simp add: startup_def available_def)

text \<open>The test doubles at the concrete inputs.\<close>

lemma witness_setup:
  "client available = Some (GenerativeModel ''gemini-2.0-flash-lite'')"
  "image_open (answers t) fs = Inr (ImageFile [1, 2, 3])"
  "generate_content (answers t) c r = Inr \<lparr>response_text = Inr t\<rparr>"
  "json_loads (answers t) = loads_stub"
  by (simp_all add: available_def answers_def stub_env_def)

lemma short_is_not_deep: "length t < 2000 \<Longrightarrow> (t = replicate 2000 c) = False"
  by auto

lemma other_head_is_not_deep: "a \<noteq> c \<Longrightarrow> (a # t = replicate 2000 c) = False"
proof -
  assume "a \<noteq> c"
  have "replicate (Suc 1999) c = c # replicate 1999 c"
    by (rule replicate.simps)
  moreover have "Suc 1999 = 2000"
    by simp
  ultimately have "replicate 2000 c = c # replicate 1999 c"
    by (simp only:)
  with \<open>a \<noteq> c\<close> show ?thesis
    by (simp only: list.inject) simp
qed

lemma loads_stub_x:
  "loads_stub (CHR ''x'' # t) = Inl (JSONDecodeError ''Expecting value: line 1 column 1 (char 0)'')"
  by (simp add: loads_stub_def other_head_is_not_deep)

lemma loads_stub_known:
  "loads_stub ''[]'' = Inr (PList [])"
  "loads_stub ''null'' = Inr PNone"
  "loads_stub ''{\"severity\": \"unknown\"}'' = Inr (PDict [(''severity'', PStr ''unknown'')])"
  by (simp_all add: loads_stub_def short_is_not_deep)

lemma loads_stub_deep:
  "loads_stub (replicate 2000 CHR ''['') =
     Inl (OtherException ''maximum recursion depth exceeded while decoding a JSON array from a unicode string'')"
  by (simp add: loads_stub_def)

section \<open>The claims\<close>

subsection \<open>C1: every invocation returns a result\<close>

text \<open>
  C1 says that every invocation of \<^verbatim>\<open>analyze_with_gemini\<close> returns a result object and that
  none returns nothing, also when the inference call succeeds with an empty response text.
  The function does return nothing there: with a client, a decodable image and the response
  text \<^verbatim>\<open>""\<close>, the \<^verbatim>\<open>if\<close> of line 105 is skipped, the body ends, and the result is \<^verbatim>\<open>None\<close>;
  the handler then answers 200 with the body \<^verbatim>\<open>null\<close>.
\<close>

theorem empty_text_returns_None:
  "returned (analyze_with_gemini available (answers '''') [1, 2, 3] (Some ''prescription'')) = Inr PNone \<and>
   returned (analyze_report available (answers '''') (upload ''scan.png'' ''prescription'')) =
     Inr (PNone, 200)"
  by (simp add: analyze_report_def analyze_with_gemini_def try_body_def answers_def stub_env_def
      available_def upload_def Let_def)

subsection \<open>C2: the arguments of the inference call\<close>

text \<open>
  C2 says that the inference call is made with the three-field output schema and the
  temperature 0.2, alongside the system instruction, the prompt and the image. The call of
  lines 93-102 carries the three contents and the temperature, and nothing else: the schema
  built at lines 82-90 is not among its arguments. Evaluated for a prescription upload.
\<close>

theorem call_without_schema:
  "effects (analyze_with_gemini available (answers ''[]'') [1, 2, 3] (Some ''prescription'')) =
     [ImageOpen [1, 2, 3],
      GenerateContent (GenerativeModel ''gemini-2.0-flash-lite'')
        \<lparr>contents = [Text system_instruction, Picture (ImageFile [1, 2, 3]),
                     Text (prompt (Some ''prescription''))],
         generation_config = [(''temperature'', CfgFloat 2 (- 1))]\<rparr>] \<and>
   map_of (generation_config (gemini_call (ImageFile [1, 2, 3]) (Some ''prescription'')))
     ''response_schema'' = None \<and>
   CfgSchema response_schema \<notin> snd ` set (generation_config (gemini_call (ImageFile [1, 2, 3]) (Some ''prescription'')))"
  by (simp add: analyze_with_gemini_def try_body_def answers_def stub_env_def
      available_def gemini_call_def loads_stub_known Let_def)

subsection \<open>C3: a response text that is not JSON\<close>

text \<open>
  C3 says that whenever the inference call returns a non-empty text that fails JSON
  parsing, the result is the dict with summary "Error parsing AI response". That holds when
  \<^verbatim>\<open>json.loads\<close> raises \<^verbatim>\<open>JSONDecodeError\<close>, the one exception line 108 handles. On a text of
  2000 opening brackets \<^verbatim>\<open>json.loads\<close> raises \<^verbatim>\<open>RecursionError\<close> instead; it reaches the
  handler of line 115, and the result is the "Gemini API or processing failed" dict.
\<close>

theorem recursion_error_is_no_parse_error:
  "replicate 2000 CHR ''['' \<noteq> [] \<and>
   json_loads (answers (replicate 2000 CHR ''['')) (replicate 2000 CHR ''['') =
     Inl (OtherException ''maximum recursion depth exceeded while decoding a JSON array from a unicode string'') \<and>
   returned (analyze_with_gemini available (answers (replicate 2000 CHR ''['')) [1, 2, 3] None) =
     Inr (PDict [(''summary'', PStr ''Gemini API or processing failed: maximum recursion depth exceeded while decoding a JSON array from a unicode string''),
                 (''severity'', PStr ''Error''), (''details'', PStr ''N/A'')]) \<and>
   returned (analyze_with_gemini available (answers (replicate 2000 CHR ''['')) [1, 2, 3] None) \<noteq>
     Inr (PDict [(''summary'', PStr ''Error parsing AI response''), (''severity'', PStr ''Error''),
                 (''details'', PStr (take 500 (replicate 2000 CHR ''['')))])"
proof -
  let ?t = "replicate 2000 CHR ''[''"
  let ?e = "OtherException ''maximum recursion depth exceeded while decoding a JSON array from a unicode string''"
  have ne: "?t \<noteq> []"
    by simp
  have raised: "json_loads (answers ?t) ?t = Inl ?e"
    by (simp only: witness_setup(4) loads_stub_deep)
  have "try_body (answers ?t) (GenerativeModel ''gemini-2.0-flash-lite'') [1, 2, 3] None =
      (Inl ?e, [ImageOpen [1, 2, 3],
                GenerateContent (GenerativeModel ''gemini-2.0-flash-lite'') (gemini_call (ImageFile [1, 2, 3]) None)])"
    by (rule try_body_loads_raises [OF witness_setup(2) witness_setup(3) _ ne raised]) simp_all
  then have "analyze_with_gemini available (answers ?t) [1, 2, 3] None =
     \<lparr>returned = Inr (PDict [(''summary'', PStr (''Gemini API or processing failed: '' @ message ?e)),
                             (''severity'', PStr ''Error''), (''details'', PStr ''N/A'')]),
      state_after = available,
      effects = [ImageOpen [1, 2, 3],
                 GenerateContent (GenerativeModel ''gemini-2.0-flash-lite'') (gemini_call (ImageFile [1, 2, 3]) None)] @
                [Log ERROR (''Gemini API or processing failed: '' @ message ?e)]\<rparr>"
    by (rule try_body_raises [OF witness_setup(1)]) (simp add: is_Exception_def)
  then have result: "returned (analyze_with_gemini available (answers ?t) [1, 2, 3] None) =
     Inr (PDict [(''summary'', PStr ''Gemini API or processing failed: maximum recursion depth exceeded while decoding a JSON array from a unicode string''),
                 (''severity'', PStr ''Error''), (''details'', PStr ''N/A'')])"
    by simp
  from ne raised result show ?thesis
    by simp
qed

text \<open>
  C3 as the code has it: when the inference call returns a non-empty text on which
  \<^verbatim>\<open>json.loads\<close> raises \<^verbatim>\<open>JSONDecodeError\<close>, the result is the dict with summary
  "Error parsing AI response", severity "Error" and, as details, the first 500 characters of
  the text: a prefix of the text of length \<open>min n 500\<close> for a text of length \<open>n\<close>. When
  \<^verbatim>\<open>json.loads\<close> raises another instance of \<^verbatim>\<open>Exception\<close>, the result is the dict with summary
  "Gemini API or processing failed: " followed by its message.
\<close>

theorem parse_failure_result:
  assumes "client s = Some c"
    and "image_open ev fs = Inr img"
    and "generate_content ev c (gemini_call img ut) = Inr resp"
    and "response_text resp = Inr txt"
    and "txt \<noteq> []"
    and "json_loads ev txt = Inl e"
  shows "(\<forall>m. e = JSONDecodeError m \<longrightarrow>
            returned (analyze_with_gemini s ev fs ut) =
              Inr (PDict [(''summary'', PStr ''Error parsing AI response''),
                          (''severity'', PStr ''Error''),
                          (''details'', PStr (take 500 txt))])) \<and>
         (\<forall>m. e = OtherException m \<longrightarrow>
            returned (analyze_with_gemini s ev fs ut) =
              Inr (PDict [(''summary'', PStr (''Gemini API or processing failed: '' @ m)),
                          (''severity'', PStr ''Error''),
                          (''details'', PStr ''N/A'')])) \<and>
         length (take 500 txt) = min (length txt) 500 \<and>
         prefix (take 500 txt) txt"
proof (intro conjI allI impI)
  fix m
  assume "e = JSONDecodeError m"
  with assms(6) have "json_loads ev txt = Inl (JSONDecodeError m)"
    by simp
  with assms(2-5) have "try_body ev c fs ut =
     (Inr (PDict [(''summary'', PStr ''Error parsing AI response''), (''severity'', PStr ''Error''),
                  (''details'', PStr (take 500 txt))]),
      [ImageOpen fs, GenerateContent c (gemini_call img ut)])"
    by (rule try_body_parse_error)
  with assms(1) show "returned (analyze_with_gemini s ev fs ut) =
      Inr (PDict [(''summary'', PStr ''Error parsing AI response''), (''severity'', PStr ''Error''),
                  (''details'', PStr (take 500 txt))])"
    by (simp add: try_body_returns)
next
  fix m
  assume other: "e = OtherException m"
  then have "e = OtherException m \<or> e = NonException m"
    by simp
  with assms(2-6) have "try_body ev c fs ut =
      (Inl e, [ImageOpen fs, GenerateContent c (gemini_call img ut)])"
    by (rule try_body_loads_raises)
  moreover from other have "is_Exception e"
    by (simp add: is_Exception_def)
  ultimately have "analyze_with_gemini s ev fs ut =
     \<lparr>returned = Inr (PDict [(''summary'', PStr (''Gemini API or processing failed: '' @ message e)),
                             (''severity'', PStr ''Error''), (''details'', PStr ''N/A'')]),
      state_after = s,
      effects = [ImageOpen fs, GenerateContent c (gemini_call img ut)] @
                [Log ERROR (''Gemini API or processing failed: '' @ message e)]\<rparr>"
    using assms(1) by (simp add: try_body_raises)
  with other show "returned (analyze_with_gemini s ev fs ut) =
      Inr (PDict [(''summary'', PStr (''Gemini API or processing failed: '' @ m)),
                  (''severity'', PStr ''Error''), (''details'', PStr ''N/A'')])"
    by simp
next
  show "length (take 500 txt) = min (length txt) 500"
    by simp
next
  show "prefix (take 500 txt) txt"
    by (rule take_is_prefix)
qed

text \<open>C3 at texts of 499, 500 and 501 characters.\<close>

theorem parse_failure_result_witness:
  "returned (analyze_with_gemini available (answers (replicate 499 CHR ''x'')) [1, 2, 3] None) =
     Inr (PDict [(''summary'', PStr ''Error parsing AI response''), (''severity'', PStr ''Error''),
                 (''details'', PStr (replicate 499 CHR ''x''))]) \<and>
   returned (analyze_with_gemini available (answers (replicate 500 CHR ''x'')) [1, 2, 3] None) =
     Inr (PDict [(''summary'', PStr ''Error parsing AI response''), (''severity'', PStr ''Error''),
                 (''details'', PStr (replicate 500 CHR ''x''))]) \<and>
   returned (analyze_with_gemini available (answers (replicate 501 CHR ''x'')) [1, 2, 3] None) =
     Inr (PDict [(''summary'', PStr ''Error parsing AI response''), (''severity'', PStr ''Error''),
                 (''details'', PStr (replicate 500 CHR ''x''))])"
proof -
  have stub: "\<And>n. json_loads (answers (replicate (Suc n) CHR ''x'')) (replicate (Suc n) CHR ''x'') =
      Inl (JSONDecodeError ''Expecting value: line 1 column 1 (char 0)'')"
    by (simp add: witness_setup loads_stub_x)
  have ne: "\<And>n. replicate (Suc n) CHR ''x'' \<noteq> []"
    by simp
  have a: "(499::nat) = Suc 498" and b: "(500::nat) = Suc 499" and c: "(501::nat) = Suc 500"
    by simp_all
  note w = parse_failure_result [OF witness_setup(1) witness_setup(2) witness_setup(3) _ ne stub,
      THEN conjunct1, rule_format, OF _ refl]
  have "returned (analyze_with_gemini available (answers (replicate (Suc 498) CHR ''x'')) [1, 2, 3] None) =
     Inr (PDict [(''summary'', PStr ''Error parsing AI response''), (''severity'', PStr ''Error''),
                 (''details'', PStr (take 500 (replicate (Suc 498) CHR ''x'')))])"
    using w [of 498 "[1, 2, 3]" None] by simp
  moreover have "returned (analyze_with_gemini available (answers (replicate (Suc 499) CHR ''x'')) [1, 2, 3] None) =
     Inr (PDict [(''summary'', PStr ''Error parsing AI response''), (''severity'', PStr ''Error''),
                 (''details'', PStr (take 500 (replicate (Suc 499) CHR ''x'')))])"
    using w [of 499 "[1, 2, 3]" None] by simp
  moreover have "returned (analyze_with_gemini available (answers (replicate (Suc 500) CHR ''x'')) [1, 2, 3] None) =
     Inr (PDict [(''summary'', PStr ''Error parsing AI response''), (''severity'', PStr ''Error''),
                 (''details'', PStr (take 500 (replicate (Suc 500) CHR ''x'')))])"
    using w [of 500 "[1, 2, 3]" None] by simp
  ultimately show ?thesis
    unfolding a b c by (simp del: replicate.simps)
qed

subsection \<open>C4: no client\<close>

text \<open>
  C4: when the client handle is unavailable, the result is the fixed dict with summary
  "AI Service Not Available. Check API key setup.", severity "Error" and details "N/A", for
  every upload and every type; the only effect is one log record, so the image is not
  decoded and no inference call is made.
\<close>

theorem client_unavailable_result:
  assumes "client s = None"
  shows "analyze_with_gemini s ev fs ut =
           \<lparr>returned = Inr (PDict [(''summary'', PStr ''AI Service Not Available. Check API key setup.''),
                                   (''severity'', PStr ''Error''),
                                   (''details'', PStr ''N/A'')]),
            state_after = s,
            effects = [Log ERROR ''AI Service Not Available. Check API key setup.'']\<rparr> \<and>
         (\<forall>b. ImageOpen b \<notin> set (effects (analyze_with_gemini s ev fs ut))) \<and>
         (\<forall>c r. GenerateContent c r \<notin> set (effects (analyze_with_gemini s ev fs ut)))"
  using assms by (simp add: analyze_with_gemini_def)

text \<open>C4 in the state that start-up leaves when the environment has no API key.\<close>

theorem client_unavailable_result_witness:
  "startup (\<lambda>k m. Inr (GenerativeModel m)) None =
     Inr (unavailable, [Log ERROR ''GEMINI_API_KEY environment variable not set'']) \<and>
   analyze_with_gemini unavailable (answers ''[]'') [1, 2, 3] (Some ''blood_report'') =
     \<lparr>returned = Inr (PDict [(''summary'', PStr ''AI Service Not Available. Check API key setup.''),
                             (''severity'', PStr ''Error''),
                             (''details'', PStr ''N/A'')]),
      state_after = unavailable,
      effects = [Log ERROR ''AI Service Not Available. Check API key setup.'']\<rparr>"
proof -
  have "client unavailable = None"
    by (simp add: unavailable_def)
  then have "analyze_with_gemini unavailable (answers ''[]'') [1, 2, 3] (Some ''blood_report'') =
     \<lparr>returned = Inr (PDict [(''summary'', PStr ''AI Service Not Available. Check API key setup.''),
                             (''severity'', PStr ''Error''),
                             (''details'', PStr ''N/A'')]),
      state_after = unavailable,
      effects = [Log ERROR ''AI Service Not Available. Check API key setup.'']\<rparr>"
    by (rule client_unavailable_result [THEN conjunct1])
  then show ?thesis
    by (simp add: startup_without_key unavailable_def)
qed

subsection \<open>C5: exceptions become results\<close>

text \<open>
  C5 says that every exception raised while the image is decoded, the prompt built or the
  inference call made is caught, and that no exception ever leaves the function. Line 115
  is \<^verbatim>\<open>except Exception\<close>: a \<^verbatim>\<open>KeyboardInterrupt\<close> raised during the inference call (its
  \<^verbatim>\<open>str\<close> is empty) is no instance of \<^verbatim>\<open>Exception\<close>, is not caught and leaves the function.
\<close>

theorem keyboard_interrupt_propagates:
  "returned (analyze_with_gemini available
       (stub_env (Inr (ImageFile [1, 2, 3])) (Inl (NonException ''''))) [1, 2, 3] None) =
     Inl (NonException '''')"
  by (simp add: analyze_with_gemini_def try_body_def stub_env_def available_def is_Exception_def
      Let_def)

text \<open>
  C5 as the code has it: with a client, an instance \<open>e\<close> of \<^verbatim>\<open>Exception\<close> raised by the image
  decoder, by the inference call or by reading the response text is caught, and the result
  is the dict with summary "Gemini API or processing failed: " followed by \<open>message e\<close>,
  severity "Error" and details "N/A"; the same holds for every instance of \<^verbatim>\<open>Exception\<close> that
  the body of the \<^verbatim>\<open>try\<close> raises. An exception that is no instance of \<^verbatim>\<open>Exception\<close> leaves the
  function as it was raised, and no instance of \<^verbatim>\<open>Exception\<close> ever leaves it.
\<close>

theorem exception_result:
  assumes "client s = Some c"
  shows "(is_Exception e \<and>
          (image_open ev fs = Inl e \<or>
           (\<exists>img. image_open ev fs = Inr img \<and>
              (generate_content ev c (gemini_call img ut) = Inl e \<or>
               (\<exists>resp. generate_content ev c (gemini_call img ut) = Inr resp \<and>
                  response_text resp = Inl e)))) \<longrightarrow>
          returned (analyze_with_gemini s ev fs ut) =
            Inr (PDict [(''summary'', PStr (''Gemini API or processing failed: '' @ message e)),
                        (''severity'', PStr ''Error''),
                        (''details'', PStr ''N/A'')])) \<and>
         (\<forall>e' evs. try_body ev c fs ut = (Inl e', evs) \<and> is_Exception e' \<longrightarrow>
            analyze_with_gemini s ev fs ut =
              \<lparr>returned = Inr (PDict [(''summary'', PStr (''Gemini API or processing failed: '' @ message e')),
                                      (''severity'', PStr ''Error''),
                                      (''details'', PStr ''N/A'')]),
               state_after = s,
               effects = evs @ [Log ERROR (''Gemini API or processing failed: '' @ message e')]\<rparr>) \<and>
         (\<forall>e' evs. try_body ev c fs ut = (Inl e', evs) \<and> \<not> is_Exception e' \<longrightarrow>
            analyze_with_gemini s ev fs ut = \<lparr>returned = Inl e', state_after = s, effects = evs\<rparr>) \<and>
         (\<forall>e'. returned (analyze_with_gemini s ev fs ut) = Inl e' \<longrightarrow> \<not> is_Exception e')"
proof (intro conjI impI allI)
  assume h: "is_Exception e \<and>
          (image_open ev fs = Inl e \<or>
           (\<exists>img. image_open ev fs = Inr img \<and>
              (generate_content ev c (gemini_call img ut) = Inl e \<or>
               (\<exists>resp. generate_content ev c (gemini_call img ut) = Inr resp \<and>
                  response_text resp = Inl e))))"
  then obtain evs where "try_body ev c fs ut = (Inl e, evs)"
    using try_body_decode_raises try_body_call_raises try_body_text_raises by blast
  with assms h show "returned (analyze_with_gemini s ev fs ut) =
            Inr (PDict [(''summary'', PStr (''Gemini API or processing failed: '' @ message e)),
                        (''severity'', PStr ''Error''),
                        (''details'', PStr ''N/A'')])"
    by (simp add: try_body_raises)
next
  fix e' evs
  assume "try_body ev c fs ut = (Inl e', evs) \<and> is_Exception e'"
  with assms show "analyze_with_gemini s ev fs ut =
              \<lparr>returned = Inr (PDict [(''summary'', PStr (''Gemini API or processing failed: '' @ message e')),
                                      (''severity'', PStr ''Error''),
                                      (''details'', PStr ''N/A'')]),
               state_after = s,
               effects = evs @ [Log ERROR (''Gemini API or processing failed: '' @ message e')]\<rparr>"
    by (simp add: try_body_raises)
next
  fix e' evs
  assume "try_body ev c fs ut = (Inl e', evs) \<and> \<not> is_Exception e'"
  with assms show "analyze_with_gemini s ev fs ut =
      \<lparr>returned = Inl e', state_after = s, effects = evs\<rparr>"
    by (simp add: try_body_propagates)
next
  fix e'
  assume "returned (analyze_with_gemini s ev fs ut) = Inl e'"
  then show "\<not> is_Exception e'"
    by (rule raised_is_no_Exception)
qed

text \<open>C5 for an upload that is no image and for an inference call that fails.\<close>

theorem exception_result_witness:
  "returned (analyze_with_gemini available
       (stub_env (Inl (OtherException ''cannot identify image file'')) (Inr \<lparr>response_text = Inr ''[]''\<rparr>))
       [1, 2, 3] None) =
     Inr (PDict [(''summary'', PStr ''Gemini API or processing failed: cannot identify image file''),
                 (''severity'', PStr ''Error''), (''details'', PStr ''N/A'')]) \<and>
   returned (analyze_with_gemini available
       (stub_env (Inr (ImageFile [1, 2, 3])) (Inl (OtherException ''503 unavailable'')))
       [1, 2, 3] None) =
     Inr (PDict [(''summary'', PStr ''Gemini API or processing failed: 503 unavailable''),
                 (''severity'', PStr ''Error''), (''details'', PStr ''N/A'')])"
proof -
  have c: "client available = Some (GenerativeModel ''gemini-2.0-flash-lite'')"
    by (rule witness_setup(1))
  have first: "returned (analyze_with_gemini available
       (stub_env (Inl (OtherException ''cannot identify image file'')) (Inr \<lparr>response_text = Inr ''[]''\<rparr>))
       [1, 2, 3] None) =
     Inr (PDict [(''summary'', PStr (''Gemini API or processing failed: '' @
                   message (OtherException ''cannot identify image file''))),
                 (''severity'', PStr ''Error''), (''details'', PStr ''N/A'')])"
    by (rule exception_result [OF c, THEN conjunct1, THEN mp])
      (simp add: stub_env_def is_Exception_def)
  have second: "returned (analyze_with_gemini available
       (stub_env (Inr (ImageFile [1, 2, 3])) (Inl (OtherException ''503 unavailable'')))
       [1, 2, 3] None) =
     Inr (PDict [(''summary'', PStr (''Gemini API or processing failed: '' @
                   message (OtherException ''503 unavailable''))),
                 (''severity'', PStr ''Error''), (''details'', PStr ''N/A'')])"
    by (rule exception_result [OF c, THEN conjunct1, THEN mp])
      (simp add: stub_env_def is_Exception_def)
  from first second show ?thesis by simp
qed

subsection \<open>C6: the prompt\<close>

text \<open>
  C6: whenever the gateway has a client and the image decodes, it makes one inference call,
  and the third of the contents it passes is the prompt chosen by exact match on
  \<^verbatim>\<open>upload_type\<close>: "medical_image", "blood_report" and "prescription" have a prompt of their
  own, every other value, a missing or an empty type included, has the generic one; the
  prescription prompt ends by directing the decoded content into the 'details' field.
\<close>

theorem prompt_selection:
  assumes "client s = Some c"
    and "image_open ev fs = Inr img"
  shows "(effects (analyze_with_gemini s ev fs upload_type) =
            [ImageOpen fs,
             GenerateContent c
               \<lparr>contents = [Text system_instruction, Picture img, Text (prompt upload_type)],
                generation_config = [(''temperature'', CfgFloat 2 (- 1))]\<rparr>] \<or>
          (\<exists>m. effects (analyze_with_gemini s ev fs upload_type) =
            [ImageOpen fs,
             GenerateContent c
               \<lparr>contents = [Text system_instruction, Picture img, Text (prompt upload_type)],
                generation_config = [(''temperature'', CfgFloat 2 (- 1))]\<rparr>,
             Log ERROR m])) \<and>
   prompt (Some ''medical_image'') =
     ''Analyze this X-ray, CT, or medical image. Identify and describe any significant findings related to bone, tissue, or organs in simple, non-technical language. Provide a brief summary.'' \<and>
   prompt (Some ''blood_report'') =
     ''Analyze this lab report image. Identify all abnormal or out-of-range parameters. Explain what the deviation from the normal range might suggest in simple, simple terms.'' \<and>
   prompt (Some ''prescription'') =
     ''Decode this prescription image. List all medications, their dosage, and the precise daily schedule/frequency. '' @
     ''Place the decoded information in the 'details' field.'' \<and>
   suffix ''Place the decoded information in the 'details' field.'' (prompt (Some ''prescription'')) \<and>
   (upload_type \<notin> {Some ''medical_image'', Some ''blood_report'', Some ''prescription''} \<longrightarrow>
      prompt upload_type = ''Analyze this image and explain the medical content simply.'') \<and>
   prompt None = ''Analyze this image and explain the medical content simply.'' \<and>
   prompt (Some '''') = ''Analyze this image and explain the medical content simply.''"
proof -
  let ?call = "\<lparr>contents = [Text system_instruction, Picture img, Text (prompt upload_type)],
                generation_config = [(''temperature'', CfgFloat 2 (- 1))]\<rparr>"
  have call: "gemini_call img upload_type = ?call"
    by (simp add: gemini_call_def)
  obtain r evs where body: "try_body ev c fs upload_type = (r, evs)"
    by (cases "try_body ev c fs upload_type")
  with try_body_effects [OF assms(2), of c upload_type]
  have evs: "evs = [ImageOpen fs, GenerateContent c ?call]"
    by (simp add: call)
  have sent: "effects (analyze_with_gemini s ev fs upload_type) = [ImageOpen fs, GenerateContent c ?call] \<or>
      (\<exists>m. effects (analyze_with_gemini s ev fs upload_type) =
         [ImageOpen fs, GenerateContent c ?call, Log ERROR m])"
  proof (cases r)
    case (Inr v)
    with body assms(1) have "effects (analyze_with_gemini s ev fs upload_type) = evs"
      by (simp add: try_body_returns)
    with evs show ?thesis by simp
  next
    case (Inl e)
    show ?thesis
    proof (cases "is_Exception e")
      case True
      with Inl body assms(1)
      have "effects (analyze_with_gemini s ev fs upload_type) =
          evs @ [Log ERROR (''Gemini API or processing failed: '' @ message e)]"
        by (simp add: try_body_raises)
      with evs show ?thesis by simp
    next
      case False
      with Inl body assms(1) have "effects (analyze_with_gemini s ev fs upload_type) = evs"
        by (simp add: try_body_propagates)
      with evs show ?thesis by simp
    qed
  qed
  have "suffix ''Place the decoded information in the 'details' field.''
          (''Decode this prescription image. List all medications, their dosage, and the precise daily schedule/frequency. '' @
           ''Place the decoded information in the 'details' field.'')"
    by (rule suffix_appendI) (rule suffix_order.refl)
  moreover have "prompt (Some ''prescription'') =
     ''Decode this prescription image. List all medications, their dosage, and the precise daily schedule/frequency. '' @
     ''Place the decoded information in the 'details' field.''"
    by (simp add: prompt_def)
  ultimately have suff: "suffix ''Place the decoded information in the 'details' field.'' (prompt (Some ''prescription''))"
    by (simp only:)
  have other: "upload_type \<notin> {Some ''medical_image'', Some ''blood_report'', Some ''prescription''} \<longrightarrow>
      prompt upload_type = ''Analyze this image and explain the medical content simply.''"
    by (simp add: prompt_def)
  have fixed: "prompt (Some ''medical_image'') =
     ''Analyze this X-ray, CT, or medical image. Identify and describe any significant findings related to bone, tissue, or organs in simple, non-technical language. Provide a brief summary.''"
    "prompt (Some ''blood_report'') =
     ''Analyze this lab report image. Identify all abnormal or out-of-range parameters. Explain what the deviation from the normal range might suggest in simple, simple terms.''"
    "prompt (Some ''prescription'') =
     ''Decode this prescription image. List all medications, their dosage, and the precise daily schedule/frequency. '' @
     ''Place the decoded information in the 'details' field.''"
    "prompt None = ''Analyze this image and explain the medical content simply.''"
    "prompt (Some '''') = ''Analyze this image and explain the medical content simply.''"
    by (simp_all add: prompt_def)
  from sent fixed suff other show ?thesis
    by (intro conjI)
qed

text \<open>
  C6 at a prescription upload whose answer parses and at a near miss of "prescription"
  (another case) whose answer does not: the call made carries the prescription prompt in
  the first and the generic prompt in the second.
\<close>

theorem prompt_selection_witness:
  "take 2 (effects (analyze_with_gemini available (answers ''[]'') [7] (Some ''prescription''))) =
     [ImageOpen [7],
      GenerateContent (GenerativeModel ''gemini-2.0-flash-lite'')
        \<lparr>contents = [Text system_instruction, Picture (ImageFile [1, 2, 3]),
                     Text ''Decode this prescription image. List all medications, their dosage, and the precise daily schedule/frequency. Place the decoded information in the 'details' field.''],
         generation_config = [(''temperature'', CfgFloat 2 (- 1))]\<rparr>] \<and>
   take 2 (effects (analyze_with_gemini available (answers ''xyz'') [7] (Some ''Prescription''))) =
     [ImageOpen [7],
      GenerateContent (GenerativeModel ''gemini-2.0-flash-lite'')
        \<lparr>contents = [Text system_instruction, Picture (ImageFile [1, 2, 3]),
                     Text ''Analyze this image and explain the medical content simply.''],
         generation_config = [(''temperature'', CfgFloat 2 (- 1))]\<rparr>]"
proof -
  note w1 = prompt_selection [OF witness_setup(1) witness_setup(2), of "''[]''" "[7]" "Some ''prescription''"]
  note w2 = prompt_selection [OF witness_setup(1) witness_setup(2), of "''xyz''" "[7]" "Some ''Prescription''"]
  have p1: "prompt (Some ''prescription'') =
      ''Decode this prescription image. List all medications, their dosage, and the precise daily schedule/frequency. Place the decoded information in the 'details' field.''"
    using w1 by simp
  have "Some ''Prescription'' \<notin> {Some ''medical_image'', Some ''blood_report'', Some ''prescription''}"
    by simp
  with w2 have p2: "prompt (Some ''Prescription'') = ''Analyze this image and explain the medical content simply.''"
    by simp
  have "take 2 (effects (analyze_with_gemini available (answers ''[]'') [7] (Some ''prescription''))) =
     [ImageOpen [7],
      GenerateContent (GenerativeModel ''gemini-2.0-flash-lite'')
        \<lparr>contents = [Text system_instruction, Picture (ImageFile [1, 2, 3]),
                     Text (prompt (Some ''prescription''))],
         generation_config = [(''temperature'', CfgFloat 2 (- 1))]\<rparr>]"
    using w1 [THEN conjunct1] by (elim disjE exE) simp_all
  moreover have "take 2 (effects (analyze_with_gemini available (answers ''xyz'') [7] (Some ''Prescription''))) =
     [ImageOpen [7],
      GenerateContent (GenerativeModel ''gemini-2.0-flash-lite'')
        \<lparr>contents = [Text system_instruction, Picture (ImageFile [1, 2, 3]),
                     Text (prompt (Some ''Prescription''))],
         generation_config = [(''temperature'', CfgFloat 2 (- 1))]\<rparr>]"
    using w2 [THEN conjunct1] by (elim disjE exE) simp_all
  ultimately show ?thesis
    by (simp only: p1 p2) 
qed

subsection \<open>C7: the missing file\<close>




subsection \<open>C8: a response text that is JSON\<close>

text \<open>
  C8: when the inference call returns a non-empty text that \<^verbatim>\<open>json.loads\<close> parses, the
  result is the parsed value itself, whatever it is: nothing is checked or changed.
\<close>

theorem parsed_value_verbatim:
  assumes "client s = Some c"
    and "image_open ev fs = Inr img"
    and "generate_content ev c (gemini_call img ut) = Inr resp"
    and "response_text resp = Inr txt"
    and "txt \<noteq> []"
    and "json_loads ev txt = Inr v"
  shows "analyze_with_gemini s ev fs ut =
           \<lparr>returned = Inr v, state_after = s,
            effects = [ImageOpen fs, GenerateContent c (gemini_call img ut)]\<rparr>"
proof -
  from assms(2-6) have "try_body ev c fs ut = (Inr v, [ImageOpen fs, GenerateContent c (gemini_call img ut)])"
    by (rule try_body_parsed)
  with assms(1) show ?thesis
    by (rule try_body_returns)
qed

text \<open>
  C8 at an object with a severity outside the enum and no other field, at an array and
  at \<^verbatim>\<open>null\<close>.
\<close>

theorem parsed_value_verbatim_witness:
  "returned (analyze_with_gemini available (answers ''{\"severity\": \"unknown\"}'') [1, 2, 3] None) =
     Inr (PDict [(''severity'', PStr ''unknown'')]) \<and>
   returned (analyze_with_gemini available (answers ''[]'') [1, 2, 3] None) = Inr (PList []) \<and>
   returned (analyze_with_gemini available (answers ''null'') [1, 2, 3] None) = Inr PNone"
proof -
  have "returned (analyze_with_gemini available (answers ''{\"severity\": \"unknown\"}'') [1, 2, 3] None) =
     Inr (PDict [(''severity'', PStr ''unknown'')])"
    using parsed_value_verbatim [OF witness_setup(1) witness_setup(2) witness_setup(3),
        of "''{\"severity\": \"unknown\"}''" "''{\"severity\": \"unknown\"}''"
           "PDict [(''severity'', PStr ''unknown'')]" "[1, 2, 3]" None]
    by (simp add: witness_setup(4) loads_stub_known)
  moreover have "returned (analyze_with_gemini available (answers ''[]'') [1, 2, 3] None) = Inr (PList [])"
    using parsed_value_verbatim [OF witness_setup(1) witness_setup(2) witness_setup(3),
        of "''[]''" "''[]''" "PList []" "[1, 2, 3]" None]
    by (simp add: witness_setup(4) loads_stub_known)
  moreover have "returned (analyze_with_gemini available (answers ''null'') [1, 2, 3] None) = Inr PNone"
    using parsed_value_verbatim [OF witness_setup(1) witness_setup(2) witness_setup(3),
        of "''null''" "''null''" PNone "[1, 2, 3]" None]
    by (simp add: witness_setup(4) loads_stub_known)
  ultimately show ?thesis by (intro conjI)
qed

subsection \<open>C9: the module state\<close>

text \<open>
  C9: the gateway and the handler leave the module state as they found it, so every
  request of a process is handled in the state that start-up left, and its answer is the
  one the handler gives in that state for the request and the libraries' behaviour.
\<close>

theorem state_unchanged:
  "state_after (analyze_with_gemini s ev fs ut) = s \<and>
   state_after (analyze_report s ev req) = s \<and>
   snd (serve s calls) = s \<and>
   fst (serve s calls) = map (\<lambda>x. returned (analyze_report s (fst x) (snd x))) calls \<and>
   (\<forall>s0 evs. startup mk key = Inr (s0, evs) \<longrightarrow>
      snd (serve s0 calls) = s0 \<and>
      fst (serve s0 calls) = map (\<lambda>x. returned (analyze_report s0 (fst x) (snd x))) calls)"
  by (simp add: serve_from_one_state)

text \<open>C9 at three requests in a row, in the state that start-up leaves when it has a key.\<close>

theorem state_unchanged_witness:
  "startup (\<lambda>k m. Inr (GenerativeModel m)) (Some ''key'') =
     Inr (available, [Log INFO ''Gemini Client Initialized Successfully.'']) \<and>
   serve available
     [(answers ''[]'', upload ''scan.png'' ''medical_image''),
      (answers ''xyz'', upload ''scan.png'' ''medical_image''),
      (answers ''[]'', upload ''scan.png'' ''medical_image'')] =
   ([Inr (PList [], 200),
     Inr (PDict [(''summary'', PStr ''Error parsing AI response''), (''severity'', PStr ''Error''),
                 (''details'', PStr ''xyz'')], 200),
     Inr (PList [], 200)], available)"
proof -
  let ?calls = "[(answers ''[]'', upload ''scan.png'' ''medical_image''),
        (answers ''xyz'', upload ''scan.png'' ''medical_image''),
        (answers ''[]'', upload ''scan.png'' ''medical_image'')]"
  note w = state_unchanged
    [of available "answers ''[]''" "[]" None "upload ''scan.png'' ''medical_image''" ?calls
        "\<lambda>k m. Inr (GenerativeModel m)" "Some ''key''",
     THEN conjunct2, THEN conjunct2, THEN conjunct2, THEN conjunct2, rule_format,
     OF startup_with_key]
  have a: "returned (analyze_report available (answers ''[]'') (upload ''scan.png'' ''medical_image'')) =
      Inr (PList [], 200)"
    by (simp add: analyze_report_def analyze_with_gemini_def try_body_def witness_setup upload_def
        loads_stub_known Let_def)
  have b: "returned (analyze_report available (answers ''xyz'') (upload ''scan.png'' ''medical_image'')) =
      Inr (PDict [(''summary'', PStr ''Error parsing AI response''), (''severity'', PStr ''Error''),
                  (''details'', PStr ''xyz'')], 200)"
    by (simp add: analyze_report_def analyze_with_gemini_def try_body_def witness_setup upload_def
        loads_stub_x Let_def)
  have "serve available ?calls = (fst (serve available ?calls), snd (serve available ?calls))"
    by (rule prod.collapse [symmetric])
  also have "\<dots> = (map (\<lambda>x. returned (analyze_report available (fst x) (snd x))) ?calls, available)"
    by (simp only: w [THEN conjunct1] w [THEN conjunct2])
  also have "\<dots> = ([Inr (PList [], 200),
     Inr (PDict [(''summary'', PStr ''Error parsing AI response''), (''severity'', PStr ''Error''),
                 (''details'', PStr ''xyz'')], 200),
     Inr (PList [], 200)], available)"
    by (simp add: a b)
  finally show ?thesis
    by (simp only: startup_with_key)
qed

subsection \<open>C10: the severity of the results the gateway writes itself\<close>

text \<open>
  C10: each result the gateway writes itself (no client, an exception it catches, a text
  that is not JSON) has the severity "Error", and "Error" is not among the severities of
  \<^verbatim>\<open>response_schema\<close>, which are Low, Moderate, Severe and Informational.
\<close>

theorem synthesized_severity:
  "(client s = None \<longrightarrow>
      (\<exists>r. returned (analyze_with_gemini s ev fs ut) = Inr r \<and>
           field ''severity'' r = Some (PStr ''Error''))) \<and>
   (\<forall>c e evs. client s = Some c \<and> try_body ev c fs ut = (Inl e, evs) \<and> is_Exception e \<longrightarrow>
      (\<exists>r. returned (analyze_with_gemini s ev fs ut) = Inr r \<and>
           field ''severity'' r = Some (PStr ''Error''))) \<and>
   (\<forall>c img resp txt m.
      client s = Some c \<and> image_open ev fs = Inr img \<and>
      generate_content ev c (gemini_call img ut) = Inr resp \<and>
      response_text resp = Inr txt \<and> txt \<noteq> [] \<and> json_loads ev txt = Inl (JSONDecodeError m) \<longrightarrow>
      (\<exists>r. returned (analyze_with_gemini s ev fs ut) = Inr r \<and>
           field ''severity'' r = Some (PStr ''Error''))) \<and>
   (\<exists>sev. map_of (properties response_schema) ''severity'' = Some sev \<and>
      enum sev = [''Low'', ''Moderate'', ''Severe'', ''Informational''] \<and>
      ''Error'' \<notin> set (enum sev))"
proof -
  have unavailable: "client s = None \<longrightarrow>
      (\<exists>r. returned (analyze_with_gemini s ev fs ut) = Inr r \<and>
           field ''severity'' r = Some (PStr ''Error''))"
    by (simp add: analyze_with_gemini_def)
  have raised: "\<forall>c e evs. client s = Some c \<and> try_body ev c fs ut = (Inl e, evs) \<and> is_Exception e \<longrightarrow>
      (\<exists>r. returned (analyze_with_gemini s ev fs ut) = Inr r \<and>
           field ''severity'' r = Some (PStr ''Error''))"
    by (simp add: try_body_raises)
  have parse: "\<forall>c img resp txt m.
      client s = Some c \<and> image_open ev fs = Inr img \<and>
      generate_content ev c (gemini_call img ut) = Inr resp \<and>
      response_text resp = Inr txt \<and> txt \<noteq> [] \<and> json_loads ev txt = Inl (JSONDecodeError m) \<longrightarrow>
      (\<exists>r. returned (analyze_with_gemini s ev fs ut) = Inr r \<and>
           field ''severity'' r = Some (PStr ''Error''))"
  proof (intro allI impI, elim conjE)
    fix c img resp rtext m
    assume c: "client s = Some c"
      and h: "image_open ev fs = Inr img" "generate_content ev c (gemini_call img ut) = Inr resp"
        "response_text resp = Inr rtext" "rtext \<noteq> []" "json_loads ev rtext = Inl (JSONDecodeError m)"
    from h have "try_body ev c fs ut =
       (Inr (PDict [(''summary'', PStr ''Error parsing AI response''), (''severity'', PStr ''Error''),
                    (''details'', PStr (take 500 rtext))]),
        [ImageOpen fs, GenerateContent c (gemini_call img ut)])"
      by (rule try_body_parse_error)
    with c have "analyze_with_gemini s ev fs ut =
       \<lparr>returned = Inr (PDict [(''summary'', PStr ''Error parsing AI response''), (''severity'', PStr ''Error''),
                    (''details'', PStr (take 500 rtext))]), state_after = s,
        effects = [ImageOpen fs, GenerateContent c (gemini_call img ut)]\<rparr>"
      by (rule try_body_returns)
    then show "\<exists>r. returned (analyze_with_gemini s ev fs ut) = Inr r \<and>
           field ''severity'' r = Some (PStr ''Error'')"
      by simp
  qed
  have schema: "\<exists>sev. map_of (properties response_schema) ''severity'' = Some sev \<and>
      enum sev = [''Low'', ''Moderate'', ''Severe'', ''Informational''] \<and>
      ''Error'' \<notin> set (enum sev)"
    by (simp add: response_schema_def)
  from unavailable raised parse schema show ?thesis by (intro conjI)
qed

text \<open>C10 on each of the three paths.\<close>

theorem synthesized_severity_witness:
  "(\<exists>r. returned (analyze_with_gemini unavailable (answers ''[]'') [1, 2, 3] None) = Inr r \<and>
        field ''severity'' r = Some (PStr ''Error'')) \<and>
   (\<exists>r. returned (analyze_with_gemini available
          (stub_env (Inl (OtherException ''cannot identify image file'')) (Inr \<lparr>response_text = Inr ''[]''\<rparr>))
          [1, 2, 3] None) = Inr r \<and>
        field ''severity'' r = Some (PStr ''Error'')) \<and>
   (\<exists>r. returned (analyze_with_gemini available (answers ''xyz'') [1, 2, 3] None) = Inr r \<and>
        field ''severity'' r = Some (PStr ''Error''))"
proof -
  have "client unavailable = None"
    by (simp add: unavailable_def)
  then have first: "\<exists>r. returned (analyze_with_gemini unavailable (answers ''[]'') [1, 2, 3] None) = Inr r \<and>
        field ''severity'' r = Some (PStr ''Error'')"
    using synthesized_severity [of unavailable "answers ''[]''" "[1, 2, 3]" None] by simp
  have "try_body (stub_env (Inl (OtherException ''cannot identify image file'')) (Inr \<lparr>response_text = Inr ''[]''\<rparr>))
          (GenerativeModel ''gemini-2.0-flash-lite'') [1, 2, 3] None =
        (Inl (OtherException ''cannot identify image file''), [ImageOpen [1, 2, 3]])"
    by (simp add: try_body_decode_raises stub_env_def)
  moreover have "is_Exception (OtherException ''cannot identify image file'')"
    by (simp add: is_Exception_def)
  ultimately have second: "\<exists>r. returned (analyze_with_gemini available
          (stub_env (Inl (OtherException ''cannot identify image file'')) (Inr \<lparr>response_text = Inr ''[]''\<rparr>))
          [1, 2, 3] None) = Inr r \<and>
        field ''severity'' r = Some (PStr ''Error'')"
    using synthesized_severity [of available
        "stub_env (Inl (OtherException ''cannot identify image file'')) (Inr \<lparr>response_text = Inr ''[]''\<rparr>)"
        "[1, 2, 3]" None]
    by (simp add: witness_setup(1))
  have "json_loads (answers ''xyz'') ''xyz'' = Inl (JSONDecodeError ''Expecting value: line 1 column 1 (char 0)'')"
    by (simp add: witness_setup(4) loads_stub_x)
  then have third: "\<exists>r. returned (analyze_with_gemini available (answers ''xyz'') [1, 2, 3] None) = Inr r \<and>
        field ''severity'' r = Some (PStr ''Error'')"
    using synthesized_severity [of available "answers ''xyz''" "[1, 2, 3]" None]
    by (simp add: witness_setup)
  from first second third show ?thesis by (intro conjI)
qed

end
